theory Spec2Isabelle
  imports Main
begin

section \<open>The HTTP adapter of \<open>src/api.py\<close>\<close>

text \<open>
  The module defines two request handlers: \<open>list_models\<close> (GET /v1/models) and
  \<open>chat_completions\<close> (POST /v1/chat/completions). The second one delegates to an
  external pipeline, \<open>create_rag_crew(query).kickoff()\<close>, whose code is not part of the
  module; the pipeline is therefore a parameter of the model, and so is the standard
  output to which the handler prints.
\<close>

subsection \<open>Data\<close>

text \<open>
  A Python exception is a value. \<open>KeyError k\<close> is what \<open>d[k]\<close> raises when the
  dictionary \<open>d\<close> has no key \<open>k\<close>; \<open>Exception s\<close> stands for any other exception, which
  only the code outside the handler can raise: the pipeline, or \<open>print\<close> (for instance
  \<open>UnicodeEncodeError\<close> for a line that the encoding of the standard output cannot
  write).
\<close>

datatype exn = KeyError string | Exception string

text \<open>
  The values the handlers return are Python dictionaries, lists, strings, integers and
  \<open>None\<close>, which the framework serialises as JSON. A dictionary literal keeps the order
  in which its keys are written.
\<close>

datatype json =
    JNull
  | JInt int
  | JStr string
  | JArray "json list"
  | JObject "(string \<times> json) list"

text \<open>
  Reading a field of a JSON object, the value at the end of a path of fields, and that
  value when it is an integer.
\<close>

fun field :: "string \<Rightarrow> json \<Rightarrow> json option" where
  "field k (JObject kvs) = map_of kvs k"
| "field k _ = None"

fun at_path :: "string list \<Rightarrow> json \<Rightarrow> json option" where
  "at_path [] j = Some j"
| "at_path (k # ks) j = (case field k j of None \<Rightarrow> None | Some v \<Rightarrow> at_path ks v)"

fun int_at :: "string list \<Rightarrow> json \<Rightarrow> int option" where
  "int_at ks j = (case at_path ks j of Some (JInt n) \<Rightarrow> Some n | _ \<Rightarrow> None)"

text \<open>
  \<open>class ChatRequest(BaseModel): model: str; messages: List[Dict[str, str]]\<close>.
  A message is a dictionary from strings to strings; the structural check of the
  framework asks for nothing more, in particular for no key.
\<close>

type_synonym message = "string \<rightharpoonup> string"

record ChatRequest =
  model :: string
  messages :: "message list"

text \<open>
  What the handler calls outside itself. \<open>print\<close> writes a line to the standard output.
  \<open>create_rag_crew\<close> builds a pipeline (a crew) from the query, \<open>kickoff\<close> runs it, and
  \<open>str\<close> is the conversion of its result to text. Each of them is foreign code: it may
  raise, and it may read and change a state \<open>'w\<close> outside the handler, which the handler
  only threads through.
\<close>

record ('w, 'c, 'r) pipeline =
  print :: "string \<Rightarrow> 'w \<Rightarrow> (exn + unit) \<times> 'w"
  create_rag_crew :: "string \<Rightarrow> 'w \<Rightarrow> (exn + 'c) \<times> 'w"
  kickoff :: "'c \<Rightarrow> 'w \<Rightarrow> (exn + 'r) \<times> 'w"
  str :: "'r \<Rightarrow> 'w \<Rightarrow> (exn + string) \<times> 'w"

text \<open>
  What a handler does besides returning: the calls it makes to the code outside, in the
  order in which they happen, whether they return or raise. \<open>Stdout line\<close> is the call
  of \<open>print\<close> with that line, \<open>CreateRagCrew q\<close> the call of the factory with the query.
\<close>

datatype event =
    Stdout string
  | CreateRagCrew string
  | Kickoff
  | Str

fun factory_calls :: "event list \<Rightarrow> string list" where
  "factory_calls [] = []"
| "factory_calls (CreateRagCrew q # evs) = q # factory_calls evs"
| "factory_calls (_ # evs) = factory_calls evs"

text \<open>
  The outcome of a handler: the exception it raises or the body it returns, the events
  of the call, and the state outside the handler afterwards.
\<close>

type_synonym 'w outcome = "(exn + json) \<times> event list \<times> 'w"

definition returned :: "'w outcome \<Rightarrow> exn + json" where
  "returned out = fst out"

definition events :: "'w outcome \<Rightarrow> event list" where
  "events out = fst (snd out)"

subsection \<open>The model-listing operation\<close>

text \<open>\<open>list_models()\<close> returns a dictionary literal and does nothing else.\<close>

definition list_models :: "'w \<Rightarrow> 'w outcome" where
  "list_models w =
    (Inr (JObject
      [(''object'', JStr ''list''),
       (''data'', JArray
         [JObject
           [(''id'', JStr ''app-rag-model''),
            (''object'', JStr ''model''),
            (''created'', JInt 1677652288),
            (''owned_by'', JStr ''app-rag-model''),
            (''permission'', JArray []),
            (''root'', JStr ''app-rag-model''),
            (''parent'', JNull),
            (''max_tokens'', JInt 131072),
            (''context_length'', JInt 131072)]])]),
     [], w)"

subsection \<open>The chat-completion operation\<close>

text \<open>\<open>d[k]\<close> on a dictionary: the value, or \<open>KeyError\<close> with the key.\<close>

definition getitem :: "message \<Rightarrow> string \<Rightarrow> exn + string" where
  "getitem d k = (case d k of None \<Rightarrow> Inl (KeyError k) | Some v \<Rightarrow> Inr v)"

text \<open>
  \<open>next((msg["content"] for msg in it if msg["role"] == "user"), None)\<close> over an
  iterator \<open>it\<close>, given here as the list of the messages it yields. The generator is
  lazy: it looks up \<open>"role"\<close> in one message after the other, stops at the first whose
  role is \<open>"user"\<close> and looks up \<open>"content"\<close> there; a failed lookup raises out of
  \<open>next\<close>. When the iterator is exhausted the default \<open>None\<close> is the value.
\<close>

fun next_user_content :: "message list \<Rightarrow> exn + string option" where
  "next_user_content [] = Inr None"
| "next_user_content (msg # rest) =
    (case getitem msg ''role'' of
       Inl e \<Rightarrow> Inl e
     | Inr role \<Rightarrow>
         if role = ''user'' then
           (case getitem msg ''content'' of
              Inl e \<Rightarrow> Inl e
            | Inr content \<Rightarrow> Inr (Some content))
         else next_user_content rest)"

text \<open>The iterator of the source is \<open>reversed(request.messages)\<close>.\<close>

definition user_message :: "ChatRequest \<Rightarrow> exn + string option" where
  "user_message request = next_user_content (rev (messages request))"

definition no_user_message :: json where
  "no_user_message = JObject [(''error'', JStr ''No user message found'')]"

text \<open>The dictionary built at the end of the handler.\<close>

definition response :: "ChatRequest \<Rightarrow> string \<Rightarrow> json" where
  "response request text =
    JObject
      [(''id'', JStr ''chatcmpl-123''),
       (''object'', JStr ''chat.completion''),
       (''created'', JInt 1677652288),
       (''model'', JStr (model request)),
       (''choices'', JArray
         [JObject
           [(''index'', JInt 0),
            (''message'', JObject
              [(''role'', JStr ''assistant''),
               (''content'', JStr text)]),
            (''finish_reason'', JStr ''stop'')]]),
       (''usage'', JObject
         [(''prompt_tokens'', JInt 0),
          (''completion_tokens'', JInt 0),
          (''total_tokens'', JInt 0)])]"

text \<open>
  \<open>chat_completions(request)\<close>. \<open>not user_message\<close> holds of \<open>None\<close> and of the empty
  string. The text of the f-string is the prefix followed by the query. No call is
  inside a \<open>try\<close>: an exception of \<open>print\<close>, of the factory, of \<open>kickoff\<close> or of \<open>str\<close>
  ends the handler, and what comes after the call is not run.
\<close>

definition chat_completions ::
  "('w, 'c, 'r) pipeline \<Rightarrow> ChatRequest \<Rightarrow> 'w \<Rightarrow> 'w outcome" where
  "chat_completions env request w =
    (case user_message request of
       Inl e \<Rightarrow> (Inl e, [], w)
     | Inr None \<Rightarrow> (Inr no_user_message, [], w)
     | Inr (Some query) \<Rightarrow>
         if query = [] then (Inr no_user_message, [], w)
         else
           let line = ''Received query for API: '' @ query in
           (case print env line w of
              (Inl e, w0) \<Rightarrow> (Inl e, [Stdout line], w0)
            | (Inr _, w0) \<Rightarrow>
                (case create_rag_crew env query w0 of
                   (Inl e, w1) \<Rightarrow> (Inl e, [Stdout line, CreateRagCrew query], w1)
                 | (Inr application_crew, w1) \<Rightarrow>
                     (case kickoff env application_crew w1 of
                        (Inl e, w2) \<Rightarrow>
                          (Inl e, [Stdout line, CreateRagCrew query, Kickoff], w2)
                      | (Inr execution_result, w2) \<Rightarrow>
                          (case str env execution_result w2 of
                             (Inl e, w3) \<Rightarrow>
                               (Inl e, [Stdout line, CreateRagCrew query, Kickoff, Str], w3)
                           | (Inr text, w3) \<Rightarrow>
                               (Inr (response request text),
                                [Stdout line, CreateRagCrew query, Kickoff, Str], w3))))))"

subsection \<open>Substitute environments\<close>

text \<open>
  Four concrete environments on which the handler can be run. Their state counts the
  calls made to the pipeline. \<open>echo_pipeline\<close> answers every query; the crew of
  \<open>hung_pipeline\<close> raises when it is run; \<open>absent_pipeline\<close> raises already when the crew
  is built. In these three \<open>print\<close> writes every line. \<open>ascii_stdout_pipeline\<close> is the
  echo pipeline behind a standard output whose encoding is ASCII: \<open>print\<close> raises for a
  line with a byte above 127.
\<close>

definition echo_pipeline :: "(nat, string, string) pipeline" where
  "echo_pipeline =
    \<lparr>print = (\<lambda>line w. (Inr (), w)),
     create_rag_crew = (\<lambda>q w. (Inr q, Suc w)),
     kickoff = (\<lambda>c w. (Inr (''answer to '' @ c), Suc w)),
     str = (\<lambda>r w. (Inr r, w))\<rparr>"

definition hung_pipeline :: "(nat, string, string) pipeline" where
  "hung_pipeline =
    \<lparr>print = (\<lambda>line w. (Inr (), w)),
     create_rag_crew = (\<lambda>q w. (Inr q, Suc w)),
     kickoff = (\<lambda>c w. (Inl (Exception ''kickoff failed''), Suc w)),
     str = (\<lambda>r w. (Inr r, w))\<rparr>"

definition absent_pipeline :: "(nat, string, string) pipeline" where
  "absent_pipeline =
    \<lparr>print = (\<lambda>line w. (Inr (), w)),
     create_rag_crew = (\<lambda>q w. (Inl (Exception ''no crew''), Suc w)),
     kickoff = (\<lambda>c w. (Inr (''answer to '' @ c), Suc w)),
     str = (\<lambda>r w. (Inr r, w))\<rparr>"

definition ascii_stdout_pipeline :: "(nat, string, string) pipeline" where
  "ascii_stdout_pipeline =
    \<lparr>print = (\<lambda>line w.
        if list_all (\<lambda>ch. \<not> digit7 ch) line then (Inr (), w)
        else (Inl (Exception ''UnicodeEncodeError''), w)),
     create_rag_crew = (\<lambda>q w. (Inr q, Suc w)),
     kickoff = (\<lambda>c w. (Inr (''answer to '' @ c), Suc w)),
     str = (\<lambda>r w. (Inr r, w))\<rparr>"

section \<open>The scan for the last user message\<close>

text \<open>
  Messages whose role is present and is not \<open>"user"\<close> are passed over by the scan.
\<close>

lemma next_user_content_skip:
  assumes "\<forall>msg \<in> set post. \<exists>r. msg ''role'' = Some r \<and> r \<noteq> ''user''"
  shows "next_user_content (post @ rest) = next_user_content rest"
  using assms by (induction post) (auto simp: getitem_def)

lemma next_user_content_none:
  assumes "\<forall>msg \<in> set ms. \<exists>r. msg ''role'' = Some r \<and> r \<noteq> ''user''"
  shows "next_user_content ms = Inr None"
  using next_user_content_skip [OF assms, of "[]"] by simp

text \<open>
  Messages that merely have no role \<open>"user"\<close> are passed over too, unless one of them
  has no role at all: then the lookup of \<open>"role"\<close> raises.
\<close>

lemma next_user_content_no_user:
  assumes "\<forall>msg \<in> set post. msg ''role'' \<noteq> Some ''user''"
  shows "next_user_content (post @ rest) = next_user_content rest
       \<or> next_user_content (post @ rest) = Inl (KeyError ''role'')"
  using assms by (induction post) (auto simp: getitem_def split: option.splits)

text \<open>
  The same two facts for the request, whose messages are scanned from the last one
  backwards: what follows the message at index \<open>i\<close> is scanned first.
\<close>

lemma user_message_last_user:
  assumes i: "i < length (messages request)"
    and u: "(messages request ! i) ''role'' = Some ''user''"
    and later: "\<forall>j. i < j \<and> j < length (messages request) \<longrightarrow>
            (\<exists>r. (messages request ! j) ''role'' = Some r \<and> r \<noteq> ''user'')"
    and c: "(messages request ! i) ''content'' = Some c"
  shows "user_message request = Inr (Some c)"
proof -
  let ?ms = "messages request"
  let ?post = "drop (Suc i) ?ms"
  have split: "?ms = take i ?ms @ (?ms ! i) # ?post"
    using i by (rule id_take_nth_drop)
  have "\<forall>msg \<in> set (rev ?post). \<exists>r. msg ''role'' = Some r \<and> r \<noteq> ''user''"
  proof
    fix msg assume "msg \<in> set (rev ?post)"
    then have "msg \<in> set ?post" by simp
    then obtain k where k: "k < length ?post" and msg: "msg = ?post ! k"
      by (auto simp: in_set_conv_nth)
    from k have "Suc i + k < length ?ms" by simp
    moreover from k msg have "msg = ?ms ! (Suc i + k)" by simp
    ultimately show "\<exists>r. msg ''role'' = Some r \<and> r \<noteq> ''user''"
      using later by simp
  qed
  then have skip: "next_user_content (rev ?post @ (?ms ! i) # rev (take i ?ms))
      = next_user_content ((?ms ! i) # rev (take i ?ms))"
    by (rule next_user_content_skip)
  have "rev ?ms = rev ?post @ (?ms ! i) # rev (take i ?ms)"
    by (subst split) simp
  then have "user_message request = next_user_content ((?ms ! i) # rev (take i ?ms))"
    using skip by (simp add: user_message_def)
  also have "\<dots> = Inr (Some c)"
    using u c by (simp add: getitem_def)
  finally show ?thesis .
qed

lemma user_message_later_no_user:
  assumes i: "i < length (messages request)"
    and later: "\<forall>j. i < j \<and> j < length (messages request) \<longrightarrow>
            (messages request ! j) ''role'' \<noteq> Some ''user''"
  shows "user_message request = next_user_content ((messages request ! i) # rev (take i (messages request)))
       \<or> user_message request = Inl (KeyError ''role'')"
proof -
  let ?ms = "messages request"
  let ?post = "drop (Suc i) ?ms"
  have split: "?ms = take i ?ms @ (?ms ! i) # ?post"
    using i by (rule id_take_nth_drop)
  have "\<forall>msg \<in> set (rev ?post). msg ''role'' \<noteq> Some ''user''"
  proof
    fix msg assume "msg \<in> set (rev ?post)"
    then have "msg \<in> set ?post" by simp
    then obtain k where k: "k < length ?post" and msg: "msg = ?post ! k"
      by (auto simp: in_set_conv_nth)
    from k have "Suc i + k < length ?ms" by simp
    moreover from k msg have "msg = ?ms ! (Suc i + k)" by simp
    ultimately show "msg ''role'' \<noteq> Some ''user''"
      using later by simp
  qed
  from next_user_content_no_user [OF this, of "(?ms ! i) # rev (take i ?ms)"]
  have "next_user_content (rev ?post @ (?ms ! i) # rev (take i ?ms))
          = next_user_content ((?ms ! i) # rev (take i ?ms))
      \<or> next_user_content (rev ?post @ (?ms ! i) # rev (take i ?ms)) = Inl (KeyError ''role'')" .
  moreover have "rev ?ms = rev ?post @ (?ms ! i) # rev (take i ?ms)"
    by (subst split) simp
  ultimately show ?thesis
    by (simp add: user_message_def)
qed

section \<open>The branches of the handler\<close>

lemma chat_completions_falsy:
  "user_message request = Inr None \<or> user_message request = Inr (Some [])
    \<Longrightarrow> chat_completions env request w = (Inr no_user_message, [], w)"
  by (auto simp: chat_completions_def)

lemma chat_completions_no_call:
  assumes "user_message request = Inl e \<or> user_message request = Inr None
         \<or> user_message request = Inr (Some [])"
  shows "events (chat_completions env request w) = []"
  using assms by (auto simp: chat_completions_def events_def)

lemma chat_completions_query:
  assumes "user_message request = Inr (Some q)" and "q \<noteq> []"
    and "print env (''Received query for API: '' @ q) w = (Inr (), w0)"
  shows "factory_calls (events (chat_completions env request w)) = [q]
    \<and> (case create_rag_crew env q w0 of
         (Inl e, w1) \<Rightarrow>
           chat_completions env request w =
             (Inl e, [Stdout (''Received query for API: '' @ q), CreateRagCrew q], w1)
       | (Inr crew, w1) \<Rightarrow>
           (case kickoff env crew w1 of
              (Inl e, w2) \<Rightarrow>
                chat_completions env request w =
                  (Inl e, [Stdout (''Received query for API: '' @ q), CreateRagCrew q,
                           Kickoff], w2)
            | (Inr result, w2) \<Rightarrow>
                (case str env result w2 of
                   (Inl e, w3) \<Rightarrow>
                     chat_completions env request w =
                       (Inl e, [Stdout (''Received query for API: '' @ q), CreateRagCrew q,
                                Kickoff, Str], w3)
                 | (Inr reply, w3) \<Rightarrow>
                     chat_completions env request w =
                       (Inr (response request reply),
                        [Stdout (''Received query for API: '' @ q), CreateRagCrew q,
                         Kickoff, Str], w3))))"
  using assms
  by (simp add: chat_completions_def events_def Let_def split: prod.split sum.split)

lemma chat_completions_success:
  assumes "returned (chat_completions env request w) = Inr body"
    and "body \<noteq> no_user_message"
  shows "\<exists>q w0 crew w1 result w2 reply w3.
      user_message request = Inr (Some q) \<and> q \<noteq> [] \<and>
      print env (''Received query for API: '' @ q) w = (Inr (), w0) \<and>
      create_rag_crew env q w0 = (Inr crew, w1) \<and>
      kickoff env crew w1 = (Inr result, w2) \<and>
      str env result w2 = (Inr reply, w3) \<and>
      body = response request reply"
  using assms
  by (auto simp: chat_completions_def returned_def Let_def
           split: sum.splits option.splits if_splits prod.splits)

section \<open>Properties\<close>

subsection \<open>Which query reaches the pipeline\<close>

text \<open>
  Claim C1, as amended. Let the entry at index \<open>i\<close> of \<open>messages\<close> be the last one
  whose role is "user": every later entry has a role, and it is not "user". Let that
  entry have a content that is not the empty string, and let \<open>print\<close> return when it
  writes the diagnostic line. Then the handler calls the pipeline factory exactly once,
  with that content, in the state that \<open>print\<close> left: the one factory event carries the
  content, and the outcome of the handler is the outcome of that call and of what the
  handler does with the crew it returns.
\<close>

theorem C1_factory_called_once:
  assumes "i < length (messages request)"
    and "(messages request ! i) ''role'' = Some ''user''"
    and "\<forall>j. i < j \<and> j < length (messages request) \<longrightarrow>
            (\<exists>r. (messages request ! j) ''role'' = Some r \<and> r \<noteq> ''user'')"
    and "(messages request ! i) ''content'' = Some c"
    and "c \<noteq> []"
    and "print env (''Received query for API: '' @ c) w = (Inr (), w0)"
  shows "factory_calls (events (chat_completions env request w)) = [c]
    \<and> (case create_rag_crew env c w0 of
         (Inl e, w1) \<Rightarrow>
           chat_completions env request w =
             (Inl e, [Stdout (''Received query for API: '' @ c), CreateRagCrew c], w1)
       | (Inr crew, w1) \<Rightarrow>
           (case kickoff env crew w1 of
              (Inl e, w2) \<Rightarrow>
                chat_completions env request w =
                  (Inl e, [Stdout (''Received query for API: '' @ c), CreateRagCrew c,
                           Kickoff], w2)
            | (Inr result, w2) \<Rightarrow>
                (case str env result w2 of
                   (Inl e, w3) \<Rightarrow>
                     chat_completions env request w =
                       (Inl e, [Stdout (''Received query for API: '' @ c), CreateRagCrew c,
                                Kickoff, Str], w3)
                 | (Inr reply, w3) \<Rightarrow>
                     chat_completions env request w =
                       (Inr (response request reply),
                        [Stdout (''Received query for API: '' @ c), CreateRagCrew c,
                         Kickoff, Str], w3))))"
proof -
  have "user_message request = Inr (Some c)"
    using assms(1-4) by (rule user_message_last_user)
  then show ?thesis
    using assms(5,6) by (rule chat_completions_query)
qed

text \<open>
  The theorem of C1 at a request with two user turns followed by an assistant turn, on
  the echo pipeline: the factory receives the content of the second user turn, and the
  reply is the answer of the crew built from it.
\<close>

theorem C1_witness:
  "chat_completions echo_pipeline
      \<lparr>model = ''app-rag-model'',
       messages = [[''role'' \<mapsto> ''user'', ''content'' \<mapsto> ''first''],
                   [''role'' \<mapsto> ''user'', ''content'' \<mapsto> ''second''],
                   [''role'' \<mapsto> ''assistant'', ''content'' \<mapsto> ''reply'']]\<rparr> 0
     = (Inr (response \<lparr>model = ''app-rag-model'',
       messages = [[''role'' \<mapsto> ''user'', ''content'' \<mapsto> ''first''],
                   [''role'' \<mapsto> ''user'', ''content'' \<mapsto> ''second''],
                   [''role'' \<mapsto> ''assistant'', ''content'' \<mapsto> ''reply'']]\<rparr>
         ''answer to second''),
        [Stdout ''Received query for API: second'', CreateRagCrew ''second'', Kickoff, Str],
        2)
   \<and> factory_calls (events (chat_completions echo_pipeline
      \<lparr>model = ''app-rag-model'',
       messages = [[''role'' \<mapsto> ''user'', ''content'' \<mapsto> ''first''],
                   [''role'' \<mapsto> ''user'', ''content'' \<mapsto> ''second''],
                   [''role'' \<mapsto> ''assistant'', ''content'' \<mapsto> ''reply'']]\<rparr> 0)) = [''second'']"
proof -
  let ?req = "\<lparr>model = ''app-rag-model'',
       messages = [[''role'' \<mapsto> ''user'', ''content'' \<mapsto> ''first''],
                   [''role'' \<mapsto> ''user'', ''content'' \<mapsto> ''second''],
                   [''role'' \<mapsto> ''assistant'', ''content'' \<mapsto> ''reply'']]\<rparr>"
  have 1: "1 < length (messages ?req)" by simp
  have 2: "(messages ?req ! 1) ''role'' = Some ''user''" by simp
  have 3: "\<forall>j. 1 < j \<and> j < length (messages ?req) \<longrightarrow>
            (\<exists>r. (messages ?req ! j) ''role'' = Some r \<and> r \<noteq> ''user'')"
  proof (intro allI impI)
    fix j assume "1 < j \<and> j < length (messages ?req)"
    then have "j = 2" by simp
    then show "\<exists>r. (messages ?req ! j) ''role'' = Some r \<and> r \<noteq> ''user''" by simp
  qed
  have 4: "(messages ?req ! 1) ''content'' = Some ''second''" by simp
  have 5: "''second'' \<noteq> []" by simp
  have 6: "print echo_pipeline (''Received query for API: '' @ ''second'') 0 = (Inr (), 0)"
    by (simp add: echo_pipeline_def)
  from C1_factory_called_once [OF 1 2 3 4 5 6]
  show ?thesis
    by (simp add: echo_pipeline_def events_def)
qed

text \<open>
  Claim C1 as first stated asks only for an entry with role "user". Three requests with
  such an entry for which the factory is not called: a user turn with empty content,
  for which the handler returns the error body; a user turn followed by an entry
  without a "role" key, for which the scan raises \<open>KeyError\<close>; and a user turn whose
  content is not ASCII (the two bytes of an accented letter), on a standard output
  whose encoding is ASCII, for which \<open>print\<close> raises before the factory is reached.
\<close>

theorem C1_counterexample:
  "(messages \<lparr>model = ''app-rag-model'',
       messages = [[''role'' \<mapsto> ''user'', ''content'' \<mapsto> '''']]\<rparr> ! 0) ''role'' = Some ''user''
   \<and> chat_completions echo_pipeline
        \<lparr>model = ''app-rag-model'',
         messages = [[''role'' \<mapsto> ''user'', ''content'' \<mapsto> '''']]\<rparr> 0
       = (Inr no_user_message, [], 0)
   \<and> (messages \<lparr>model = ''app-rag-model'',
       messages = [[''role'' \<mapsto> ''user'', ''content'' \<mapsto> ''hi''],
                   [''content'' \<mapsto> ''hello'']]\<rparr> ! 0) ''role'' = Some ''user''
   \<and> chat_completions echo_pipeline
        \<lparr>model = ''app-rag-model'',
         messages = [[''role'' \<mapsto> ''user'', ''content'' \<mapsto> ''hi''],
                     [''content'' \<mapsto> ''hello'']]\<rparr> 0
       = (Inl (KeyError ''role''), [], 0)
   \<and> (messages \<lparr>model = ''app-rag-model'',
       messages = [[''role'' \<mapsto> ''user'', ''content'' \<mapsto> [CHR 0xC3, CHR 0xA9]]]\<rparr> ! 0)
         ''role'' = Some ''user''
   \<and> chat_completions ascii_stdout_pipeline
        \<lparr>model = ''app-rag-model'',
         messages = [[''role'' \<mapsto> ''user'', ''content'' \<mapsto> [CHR 0xC3, CHR 0xA9]]]\<rparr> 0
       = (Inl (Exception ''UnicodeEncodeError''),
          [Stdout (''Received query for API: '' @ [CHR 0xC3, CHR 0xA9])], 0)
   \<and> factory_calls [Stdout (''Received query for API: '' @ [CHR 0xC3, CHR 0xA9])] = []"
  by (simp add: chat_completions_def user_message_def getitem_def Let_def
      ascii_stdout_pipeline_def)

text \<open>
  Claim C3. For the messages system "x", user "A", assistant "B", user "C", the query
  that the handler extracts is "C", whatever the model name is. When \<open>print\<close> returns
  from writing the diagnostic line, "C" is the one argument with which the pipeline
  factory is called, and the outcome of the handler is the outcome of that call and of
  what the handler does with the crew, whatever the pipeline is.
\<close>

theorem C3_extracted_query_is_C:
  fixes m :: string and env :: "('w, 'c, 'r) pipeline"
  defines "request \<equiv> \<lparr>model = m, messages =
      [[''role'' \<mapsto> ''system'', ''content'' \<mapsto> ''x''],
       [''role'' \<mapsto> ''user'', ''content'' \<mapsto> ''A''],
       [''role'' \<mapsto> ''assistant'', ''content'' \<mapsto> ''B''],
       [''role'' \<mapsto> ''user'', ''content'' \<mapsto> ''C'']]\<rparr>"
  shows "user_message request = Inr (Some ''C'')
   \<and> (print env ''Received query for API: C'' w = (Inr (), w0) \<longrightarrow>
      factory_calls (events (chat_completions env request w)) = [''C'']
      \<and> (case create_rag_crew env ''C'' w0 of
           (Inl e, w1) \<Rightarrow>
             chat_completions env request w =
               (Inl e, [Stdout ''Received query for API: C'', CreateRagCrew ''C''], w1)
         | (Inr crew, w1) \<Rightarrow>
             (case kickoff env crew w1 of
                (Inl e, w2) \<Rightarrow>
                  chat_completions env request w =
                    (Inl e, [Stdout ''Received query for API: C'', CreateRagCrew ''C'',
                             Kickoff], w2)
              | (Inr result, w2) \<Rightarrow>
                  (case str env result w2 of
                     (Inl e, w3) \<Rightarrow>
                       chat_completions env request w =
                         (Inl e, [Stdout ''Received query for API: C'', CreateRagCrew ''C'',
                                  Kickoff, Str], w3)
                   | (Inr reply, w3) \<Rightarrow>
                       chat_completions env request w =
                         (Inr (response request reply),
                          [Stdout ''Received query for API: C'', CreateRagCrew ''C'',
                           Kickoff, Str], w3)))))"
proof (intro conjI impI)
  show q: "user_message request = Inr (Some ''C'')"
    by (simp add: request_def user_message_def getitem_def)
  have ne: "''C'' \<noteq> []" by simp
  assume "print env ''Received query for API: C'' w = (Inr (), w0)"
  then have p: "print env (''Received query for API: '' @ ''C'') w = (Inr (), w0)"
    by simp
  from chat_completions_query [OF q ne p]
  show "factory_calls (events (chat_completions env request w)) = [''C'']"
    by simp
  from chat_completions_query [OF q ne p]
  show "case create_rag_crew env ''C'' w0 of
           (Inl e, w1) \<Rightarrow>
             chat_completions env request w =
               (Inl e, [Stdout ''Received query for API: C'', CreateRagCrew ''C''], w1)
         | (Inr crew, w1) \<Rightarrow>
             (case kickoff env crew w1 of
                (Inl e, w2) \<Rightarrow>
                  chat_completions env request w =
                    (Inl e, [Stdout ''Received query for API: C'', CreateRagCrew ''C'',
                             Kickoff], w2)
              | (Inr result, w2) \<Rightarrow>
                  (case str env result w2 of
                     (Inl e, w3) \<Rightarrow>
                       chat_completions env request w =
                         (Inl e, [Stdout ''Received query for API: C'', CreateRagCrew ''C'',
                                  Kickoff, Str], w3)
                   | (Inr reply, w3) \<Rightarrow>
                       chat_completions env request w =
                         (Inr (response request reply),
                          [Stdout ''Received query for API: C'', CreateRagCrew ''C'',
                           Kickoff, Str], w3)))"
    by (auto split: prod.splits sum.splits)
qed

text \<open>
  The theorem of C3 on the echo pipeline: the crew is built from "C" and the reply is
  its answer.
\<close>

theorem C3_witness:
  "chat_completions echo_pipeline \<lparr>model = ''app-rag-model'', messages =
      [[''role'' \<mapsto> ''system'', ''content'' \<mapsto> ''x''],
       [''role'' \<mapsto> ''user'', ''content'' \<mapsto> ''A''],
       [''role'' \<mapsto> ''assistant'', ''content'' \<mapsto> ''B''],
       [''role'' \<mapsto> ''user'', ''content'' \<mapsto> ''C'']]\<rparr> 0
    = (Inr (response \<lparr>model = ''app-rag-model'', messages =
      [[''role'' \<mapsto> ''system'', ''content'' \<mapsto> ''x''],
       [''role'' \<mapsto> ''user'', ''content'' \<mapsto> ''A''],
       [''role'' \<mapsto> ''assistant'', ''content'' \<mapsto> ''B''],
       [''role'' \<mapsto> ''user'', ''content'' \<mapsto> ''C'']]\<rparr> ''answer to C''),
       [Stdout ''Received query for API: C'', CreateRagCrew ''C'', Kickoff, Str], 2)
   \<and> factory_calls (events (chat_completions echo_pipeline
      \<lparr>model = ''app-rag-model'', messages =
      [[''role'' \<mapsto> ''system'', ''content'' \<mapsto> ''x''],
       [''role'' \<mapsto> ''user'', ''content'' \<mapsto> ''A''],
       [''role'' \<mapsto> ''assistant'', ''content'' \<mapsto> ''B''],
       [''role'' \<mapsto> ''user'', ''content'' \<mapsto> ''C'']]\<rparr> 0)) = [''C'']"
proof -
  have p: "print echo_pipeline ''Received query for API: C'' 0 = (Inr (), 0)"
    by (simp add: echo_pipeline_def)
  from C3_extracted_query_is_C [where m = "''app-rag-model''" and env = echo_pipeline
      and w = 0 and ?w0.0 = 0] p
  show ?thesis
    by (simp add: echo_pipeline_def events_def)
qed

subsection \<open>Requests without a usable user message\<close>

text \<open>
  Claim C2, as amended. If no entry of \<open>messages\<close> has role "user", the handler does
  not call the pipeline factory; if moreover every entry has a "role" key, the handler
  returns the body \<open>{"error": "No user message found"}\<close> as an ordinary return value,
  with no event and the state of the pipeline untouched.
\<close>

theorem C2_no_user_message:
  assumes "\<forall>msg \<in> set (messages request). msg ''role'' \<noteq> Some ''user''"
  shows "factory_calls (events (chat_completions env request w)) = []
       \<and> ((\<forall>msg \<in> set (messages request). msg ''role'' \<noteq> None) \<longrightarrow>
            chat_completions env request w = (Inr no_user_message, [], w))"
proof (intro conjI impI)
  from assms have "\<forall>msg \<in> set (rev (messages request)). msg ''role'' \<noteq> Some ''user''"
    by simp
  from next_user_content_no_user [OF this, of "[]"]
  have "user_message request = Inr None \<or> user_message request = Inl (KeyError ''role'')"
    by (simp add: user_message_def)
  then have "events (chat_completions env request w) = []"
    by (auto intro: chat_completions_no_call)
  then show "factory_calls (events (chat_completions env request w)) = []"
    by simp
next
  assume "\<forall>msg \<in> set (messages request). msg ''role'' \<noteq> None"
  with assms have "\<forall>msg \<in> set (rev (messages request)).
      \<exists>r. msg ''role'' = Some r \<and> r \<noteq> ''user''"
    by auto
  then have "user_message request = Inr None"
    unfolding user_message_def by (rule next_user_content_none)
  then show "chat_completions env request w = (Inr no_user_message, [], w)"
    by (simp add: chat_completions_falsy)
qed

text \<open>
  The theorem of C2 at a request with a system and an assistant message.
\<close>

theorem C2_witness:
  "chat_completions echo_pipeline
      \<lparr>model = ''app-rag-model'',
       messages = [[''role'' \<mapsto> ''system'', ''content'' \<mapsto> ''be brief''],
                   [''role'' \<mapsto> ''assistant'', ''content'' \<mapsto> ''ok'']]\<rparr> 0
    = (Inr (JObject [(''error'', JStr ''No user message found'')]), [], 0)
   \<and> factory_calls (events (chat_completions echo_pipeline
      \<lparr>model = ''app-rag-model'',
       messages = [[''role'' \<mapsto> ''system'', ''content'' \<mapsto> ''be brief''],
                   [''role'' \<mapsto> ''assistant'', ''content'' \<mapsto> ''ok'']]\<rparr> 0)) = []"
  using C2_no_user_message [of "\<lparr>model = ''app-rag-model'',
       messages = [[''role'' \<mapsto> ''system'', ''content'' \<mapsto> ''be brief''],
                   [''role'' \<mapsto> ''assistant'', ''content'' \<mapsto> ''ok'']]\<rparr>" echo_pipeline 0]
  by (simp add: no_user_message_def events_def)

text \<open>
  Claim C2 as first stated promises the error body for every request without a user
  entry. A request whose single message has no "role" key has no user entry, and the
  handler raises \<open>KeyError\<close> for it instead of returning.
\<close>

theorem C2_counterexample:
  "(messages \<lparr>model = ''app-rag-model'',
       messages = [[''content'' \<mapsto> ''hello'']]\<rparr> ! 0) ''role'' \<noteq> Some ''user''
   \<and> returned (chat_completions echo_pipeline
        \<lparr>model = ''app-rag-model'',
         messages = [[''content'' \<mapsto> ''hello'']]\<rparr> 0) = Inl (KeyError ''role'')"
  by (simp add: chat_completions_def user_message_def getitem_def returned_def)

text \<open>
  Claim C8, as amended. Let the entry at index \<open>i\<close> be the last one whose role is "user"
  and let its content be the empty string. Then the handler does not call the pipeline
  factory; if moreover every later entry has a "role" key, the handler returns the body
  \<open>{"error": "No user message found"}\<close>.
\<close>

theorem C8_empty_user_content:
  assumes "i < length (messages request)"
    and "(messages request ! i) ''role'' = Some ''user''"
    and "(messages request ! i) ''content'' = Some []"
    and "\<forall>j. i < j \<and> j < length (messages request) \<longrightarrow>
            (messages request ! j) ''role'' \<noteq> Some ''user''"
  shows "factory_calls (events (chat_completions env request w)) = []
       \<and> ((\<forall>j. i < j \<and> j < length (messages request) \<longrightarrow>
              (messages request ! j) ''role'' \<noteq> None) \<longrightarrow>
            chat_completions env request w = (Inr no_user_message, [], w))"
proof (intro conjI impI)
  have here: "next_user_content ((messages request ! i) # rev (take i (messages request)))
      = Inr (Some [])"
    using assms(2,3) by (simp add: getitem_def)
  from user_message_later_no_user [OF assms(1,4)] here
  have "user_message request = Inr (Some []) \<or> user_message request = Inl (KeyError ''role'')"
    by simp
  then have "events (chat_completions env request w) = []"
    by (auto intro: chat_completions_no_call)
  then show "factory_calls (events (chat_completions env request w)) = []"
    by simp
next
  assume "\<forall>j. i < j \<and> j < length (messages request) \<longrightarrow>
              (messages request ! j) ''role'' \<noteq> None"
  with assms(4) have "\<forall>j. i < j \<and> j < length (messages request) \<longrightarrow>
            (\<exists>r. (messages request ! j) ''role'' = Some r \<and> r \<noteq> ''user'')"
    by auto
  with assms(1,2) have "user_message request = Inr (Some [])"
    using assms(3) by (rule user_message_last_user)
  then show "chat_completions env request w = (Inr no_user_message, [], w)"
    by (simp add: chat_completions_falsy)
qed

text \<open>
  The theorem of C8 at a request whose last user turn is empty, after a non-empty one
  and before an assistant turn.
\<close>

theorem C8_witness:
  "chat_completions echo_pipeline
      \<lparr>model = ''app-rag-model'',
       messages = [[''role'' \<mapsto> ''user'', ''content'' \<mapsto> ''question''],
                   [''role'' \<mapsto> ''user'', ''content'' \<mapsto> ''''],
                   [''role'' \<mapsto> ''assistant'', ''content'' \<mapsto> ''reply'']]\<rparr> 0
     = (Inr (JObject [(''error'', JStr ''No user message found'')]), [], 0)
   \<and> factory_calls (events (chat_completions echo_pipeline
      \<lparr>model = ''app-rag-model'',
       messages = [[''role'' \<mapsto> ''user'', ''content'' \<mapsto> ''question''],
                   [''role'' \<mapsto> ''user'', ''content'' \<mapsto> ''''],
                   [''role'' \<mapsto> ''assistant'', ''content'' \<mapsto> ''reply'']]\<rparr> 0)) = []"
proof -
  let ?req = "\<lparr>model = ''app-rag-model'',
       messages = [[''role'' \<mapsto> ''user'', ''content'' \<mapsto> ''question''],
                   [''role'' \<mapsto> ''user'', ''content'' \<mapsto> ''''],
                   [''role'' \<mapsto> ''assistant'', ''content'' \<mapsto> ''reply'']]\<rparr>"
  have 1: "1 < length (messages ?req)" by simp
  have 2: "(messages ?req ! 1) ''role'' = Some ''user''" by simp
  have 3: "(messages ?req ! 1) ''content'' = Some []" by simp
  have j2: "j = 2" if "1 < j \<and> j < length (messages ?req)" for j
    using that by simp
  have 4: "\<forall>j. 1 < j \<and> j < length (messages ?req) \<longrightarrow>
            (messages ?req ! j) ''role'' \<noteq> Some ''user''"
    using j2 by auto
  have 5: "\<forall>j. 1 < j \<and> j < length (messages ?req) \<longrightarrow>
            (messages ?req ! j) ''role'' \<noteq> None"
    using j2 by auto
  from C8_empty_user_content [OF 1 2 3 4, of echo_pipeline 0] 5
  show ?thesis
    by (simp add: no_user_message_def events_def)
qed

text \<open>
  Claim C8 as first stated promises the error body whenever the last user entry has
  empty content. When an entry without a "role" key follows it, the scan reaches that
  entry first and the handler raises \<open>KeyError\<close>.
\<close>

theorem C8_counterexample:
  "(messages \<lparr>model = ''app-rag-model'',
       messages = [[''role'' \<mapsto> ''user'', ''content'' \<mapsto> ''''],
                   [''content'' \<mapsto> ''hello'']]\<rparr> ! 0) ''role'' = Some ''user''
   \<and> (messages \<lparr>model = ''app-rag-model'',
       messages = [[''role'' \<mapsto> ''user'', ''content'' \<mapsto> ''''],
                   [''content'' \<mapsto> ''hello'']]\<rparr> ! 0) ''content'' = Some ''''
   \<and> (messages \<lparr>model = ''app-rag-model'',
       messages = [[''role'' \<mapsto> ''user'', ''content'' \<mapsto> ''''],
                   [''content'' \<mapsto> ''hello'']]\<rparr> ! 1) ''role'' \<noteq> Some ''user''
   \<and> returned (chat_completions echo_pipeline
        \<lparr>model = ''app-rag-model'',
         messages = [[''role'' \<mapsto> ''user'', ''content'' \<mapsto> ''''],
                     [''content'' \<mapsto> ''hello'']]\<rparr> 0) = Inl (KeyError ''role'')"
  by (simp add: chat_completions_def user_message_def getitem_def returned_def)

text \<open>
  Claim C9. There are requests that pass the structural check (every message is a
  dictionary from strings to strings) on which the scan raises \<open>KeyError\<close> out of the
  handler: one whose message has no "role" key, and one whose user message has no
  "content" key. Nothing is printed and the pipeline is not called.
\<close>

theorem C9_key_error_reachable:
  "chat_completions env \<lparr>model = m, messages = [[''content'' \<mapsto> ''hi'']]\<rparr> w
     = (Inl (KeyError ''role''), [], w)
   \<and> chat_completions env \<lparr>model = m, messages = [[''role'' \<mapsto> ''user'']]\<rparr> w
     = (Inl (KeyError ''content''), [], w)"
  by (simp add: chat_completions_def user_message_def getitem_def)

subsection \<open>Failures of the pipeline\<close>

text \<open>
  Claim C4. Let the handler have extracted a non-empty query and \<open>print\<close> have returned
  from writing the diagnostic line, so that the pipeline is reached. If
  \<open>create_rag_crew\<close> raises, the handler raises the same exception after the one call of
  the factory, and the crew is never run. If the crew is built and \<open>kickoff\<close> raises,
  the handler raises the same exception after one call of the factory and one of
  \<open>kickoff\<close>. In both cases no body is returned and no call is repeated.
\<close>

theorem C4_pipeline_exception_propagates:
  assumes "user_message request = Inr (Some q)" and "q \<noteq> []"
    and "print env (''Received query for API: '' @ q) w = (Inr (), w0)"
  shows "(create_rag_crew env q w0 = (Inl e, w1) \<longrightarrow>
            chat_completions env request w =
              (Inl e, [Stdout (''Received query for API: '' @ q), CreateRagCrew q], w1))
       \<and> (create_rag_crew env q w0 = (Inr crew, w1) \<and> kickoff env crew w1 = (Inl e, w2) \<longrightarrow>
            chat_completions env request w =
              (Inl e, [Stdout (''Received query for API: '' @ q), CreateRagCrew q, Kickoff], w2))"
  using assms by (simp add: chat_completions_def Let_def)

text \<open>
  The theorem of C4 at a pipeline whose factory raises and at one whose crew raises
  when it is run.
\<close>

theorem C4_witness:
  "chat_completions absent_pipeline
      \<lparr>model = ''app-rag-model'',
       messages = [[''role'' \<mapsto> ''user'', ''content'' \<mapsto> ''hi'']]\<rparr> 0
     = (Inl (Exception ''no crew''),
        [Stdout ''Received query for API: hi'', CreateRagCrew ''hi''], 1)
   \<and> chat_completions hung_pipeline
      \<lparr>model = ''app-rag-model'',
       messages = [[''role'' \<mapsto> ''user'', ''content'' \<mapsto> ''hi'']]\<rparr> 0
     = (Inl (Exception ''kickoff failed''),
        [Stdout ''Received query for API: hi'', CreateRagCrew ''hi'', Kickoff], 2)"
proof -
  let ?req = "\<lparr>model = ''app-rag-model'',
       messages = [[''role'' \<mapsto> ''user'', ''content'' \<mapsto> ''hi'']]\<rparr>"
  have q: "user_message ?req = Inr (Some ''hi'')"
    by (simp add: user_message_def getitem_def)
  have ne: "''hi'' \<noteq> []" by simp
  have pa: "print absent_pipeline (''Received query for API: '' @ ''hi'') 0 = (Inr (), 0)"
    by (simp add: absent_pipeline_def)
  have ph: "print hung_pipeline (''Received query for API: '' @ ''hi'') 0 = (Inr (), 0)"
    by (simp add: hung_pipeline_def)
  have a: "create_rag_crew absent_pipeline ''hi'' 0 = (Inl (Exception ''no crew''), 1)"
    by (simp add: absent_pipeline_def)
  have h: "create_rag_crew hung_pipeline ''hi'' 0 = (Inr ''hi'', 1)
      \<and> kickoff hung_pipeline ''hi'' 1 = (Inl (Exception ''kickoff failed''), 2)"
    by (simp add: hung_pipeline_def)
  from C4_pipeline_exception_propagates
    [OF q ne pa, where e = "Exception ''no crew''" and ?w1.0 = 1] a
  have "chat_completions absent_pipeline ?req 0
     = (Inl (Exception ''no crew''),
        [Stdout ''Received query for API: hi'', CreateRagCrew ''hi''], 1)"
    by simp
  moreover
  from C4_pipeline_exception_propagates
    [OF q ne ph, where crew = "''hi''" and ?w1.0 = 1
      and e = "Exception ''kickoff failed''" and ?w2.0 = 2] h
  have "chat_completions hung_pipeline ?req 0
     = (Inl (Exception ''kickoff failed''),
        [Stdout ''Received query for API: hi'', CreateRagCrew ''hi'', Kickoff], 2)"
    by simp
  ultimately show ?thesis by simp
qed

subsection \<open>The model listing\<close>

text \<open>
  Claim C5. \<open>list_models\<close> returns the fixed listing of the one model
  "app-rag-model", makes no call and prints nothing, and leaves the state as it is; so
  two invocations, in whatever states, return the same value.
\<close>

theorem C5_list_models_constant:
  "list_models w =
     (Inr (JObject
        [(''object'', JStr ''list''),
         (''data'', JArray
           [JObject
             [(''id'', JStr ''app-rag-model''),
              (''object'', JStr ''model''),
              (''created'', JInt 1677652288),
              (''owned_by'', JStr ''app-rag-model''),
              (''permission'', JArray []),
              (''root'', JStr ''app-rag-model''),
              (''parent'', JNull),
              (''max_tokens'', JInt 131072),
              (''context_length'', JInt 131072)]])]),
      [], w)
   \<and> returned (list_models w) = returned (list_models w')"
  by (simp add: list_models_def returned_def)

subsection \<open>The envelope of a successful response\<close>

text \<open>
  A successful response is a body that the handler returns and that is not the
  error body \<open>no_user_message\<close>.

  Claim C6. In every successful response the three counts of \<open>usage\<close>, namely
  \<open>prompt_tokens\<close>, \<open>completion_tokens\<close> and \<open>total_tokens\<close>, are 0, and so the total is
  the sum of the other two.
\<close>

theorem C6_usage_is_zero:
  assumes "returned (chat_completions env request w) = Inr body"
    and "body \<noteq> no_user_message"
  shows "int_at [''usage'', ''prompt_tokens''] body = Some 0
       \<and> int_at [''usage'', ''completion_tokens''] body = Some 0
       \<and> int_at [''usage'', ''total_tokens''] body = Some 0
       \<and> the (int_at [''usage'', ''total_tokens''] body)
           = the (int_at [''usage'', ''prompt_tokens''] body)
             + the (int_at [''usage'', ''completion_tokens''] body)"
proof -
  from chat_completions_success [OF assms]
  obtain reply where "body = response request reply" by blast
  then show ?thesis
    by (simp add: response_def)
qed

text \<open>
  The theorem of C6 at the answer of the echo pipeline to the query "hi".
\<close>

theorem C6_witness:
  "returned (chat_completions echo_pipeline
      \<lparr>model = ''app-rag-model'',
       messages = [[''role'' \<mapsto> ''user'', ''content'' \<mapsto> ''hi'']]\<rparr> 0)
     = Inr (response \<lparr>model = ''app-rag-model'',
       messages = [[''role'' \<mapsto> ''user'', ''content'' \<mapsto> ''hi'']]\<rparr> ''answer to hi'')
   \<and> int_at [''usage'', ''prompt_tokens''] (response \<lparr>model = ''app-rag-model'',
       messages = [[''role'' \<mapsto> ''user'', ''content'' \<mapsto> ''hi'']]\<rparr> ''answer to hi'') = Some 0
   \<and> int_at [''usage'', ''completion_tokens''] (response \<lparr>model = ''app-rag-model'',
       messages = [[''role'' \<mapsto> ''user'', ''content'' \<mapsto> ''hi'']]\<rparr> ''answer to hi'') = Some 0
   \<and> int_at [''usage'', ''total_tokens''] (response \<lparr>model = ''app-rag-model'',
       messages = [[''role'' \<mapsto> ''user'', ''content'' \<mapsto> ''hi'']]\<rparr> ''answer to hi'') = Some 0"
proof -
  let ?req = "\<lparr>model = ''app-rag-model'',
       messages = [[''role'' \<mapsto> ''user'', ''content'' \<mapsto> ''hi'']]\<rparr>"
  have r: "returned (chat_completions echo_pipeline ?req 0)
      = Inr (response ?req ''answer to hi'')"
    by (simp add: chat_completions_def user_message_def getitem_def returned_def
        echo_pipeline_def Let_def)
  have n: "response ?req ''answer to hi'' \<noteq> no_user_message"
    by (simp add: response_def no_user_message_def)
  from C6_usage_is_zero [OF r n] r show ?thesis by simp
qed

text \<open>
  Claim C7. In every successful response the field \<open>model\<close> is the model string of the
  request, whatever it is, and \<open>choices\<close> is a list of exactly one choice, with index 0,
  finish reason "stop" and a message of role "assistant" whose content is the text to
  which \<open>str\<close> converts the result of running the crew built from the extracted query,
  after \<open>print\<close> has written the diagnostic line.
\<close>

theorem C7_envelope:
  assumes "returned (chat_completions env request w) = Inr body"
    and "body \<noteq> no_user_message"
  shows "field ''model'' body = Some (JStr (model request))
       \<and> (\<exists>query w0 crew w1 result w2 text w3.
            user_message request = Inr (Some query) \<and>
            print env (''Received query for API: '' @ query) w = (Inr (), w0) \<and>
            create_rag_crew env query w0 = (Inr crew, w1) \<and>
            kickoff env crew w1 = (Inr result, w2) \<and>
            str env result w2 = (Inr text, w3) \<and>
            field ''choices'' body = Some (JArray
              [JObject
                [(''index'', JInt 0),
                 (''message'', JObject
                   [(''role'', JStr ''assistant''), (''content'', JStr text)]),
                 (''finish_reason'', JStr ''stop'')]]))"
proof -
  from chat_completions_success [OF assms]
  obtain query w0 crew w1 result w2 reply w3 where
    run: "user_message request = Inr (Some query)"
      "print env (''Received query for API: '' @ query) w = (Inr (), w0)"
      "create_rag_crew env query w0 = (Inr crew, w1)"
      "kickoff env crew w1 = (Inr result, w2)"
      "str env result w2 = (Inr reply, w3)"
    and body: "body = response request reply"
    by blast
  from body have "field ''model'' body = Some (JStr (model request))"
    by (simp add: response_def)
  moreover from body have "field ''choices'' body = Some (JArray
              [JObject
                [(''index'', JInt 0),
                 (''message'', JObject
                   [(''role'', JStr ''assistant''), (''content'', JStr reply)]),
                 (''finish_reason'', JStr ''stop'')]])"
    by (simp add: response_def)
  ultimately show ?thesis
    using run by blast
qed

text \<open>
  The theorem of C7 at a request that names a model which is not in the listing.
\<close>

theorem C7_witness:
  "returned (chat_completions echo_pipeline
      \<lparr>model = ''no such model'',
       messages = [[''role'' \<mapsto> ''user'', ''content'' \<mapsto> ''why'']]\<rparr> 0)
     = Inr (response \<lparr>model = ''no such model'',
       messages = [[''role'' \<mapsto> ''user'', ''content'' \<mapsto> ''why'']]\<rparr> ''answer to why'')
   \<and> field ''model'' (response \<lparr>model = ''no such model'',
       messages = [[''role'' \<mapsto> ''user'', ''content'' \<mapsto> ''why'']]\<rparr> ''answer to why'')
     = Some (JStr ''no such model'')
   \<and> field ''choices'' (response \<lparr>model = ''no such model'',
       messages = [[''role'' \<mapsto> ''user'', ''content'' \<mapsto> ''why'']]\<rparr> ''answer to why'')
     = Some (JArray
              [JObject
                [(''index'', JInt 0),
                 (''message'', JObject
                   [(''role'', JStr ''assistant''), (''content'', JStr ''answer to why'')]),
                 (''finish_reason'', JStr ''stop'')]])"
proof -
  let ?req = "\<lparr>model = ''no such model'',
       messages = [[''role'' \<mapsto> ''user'', ''content'' \<mapsto> ''why'']]\<rparr>"
  have r: "returned (chat_completions echo_pipeline ?req 0)
      = Inr (response ?req ''answer to why'')"
    by (simp add: chat_completions_def user_message_def getitem_def returned_def
        echo_pipeline_def Let_def)
  have n: "response ?req ''answer to why'' \<noteq> no_user_message"
    by (simp add: response_def no_user_message_def)
  have q: "user_message ?req = Inr (Some ''why'')"
    by (simp add: user_message_def getitem_def)
  from C7_envelope [OF r n] r show ?thesis
    unfolding q by (auto simp: echo_pipeline_def)
qed

text \<open>
  Claim C10. Every successful response has the identifier "chatcmpl-123" and the
  creation time 1677652288, whatever the request, the pipeline and its state are.
\<close>

theorem C10_fixed_id_and_timestamp:
  assumes "returned (chat_completions env request w) = Inr body"
    and "body \<noteq> no_user_message"
  shows "field ''id'' body = Some (JStr ''chatcmpl-123'')
       \<and> field ''created'' body = Some (JInt 1677652288)"
proof -
  from chat_completions_success [OF assms]
  obtain reply where "body = response request reply" by blast
  then show ?thesis
    by (simp add: response_def)
qed

text \<open>
  The theorem of C10 at two different requests, answered in different states: the
  identifier and the creation time are the same.
\<close>

theorem C10_witness:
  "returned (chat_completions echo_pipeline
      \<lparr>model = ''app-rag-model'',
       messages = [[''role'' \<mapsto> ''user'', ''content'' \<mapsto> ''one'']]\<rparr> 0)
     = Inr (response \<lparr>model = ''app-rag-model'',
       messages = [[''role'' \<mapsto> ''user'', ''content'' \<mapsto> ''one'']]\<rparr> ''answer to one'')
   \<and> returned (chat_completions echo_pipeline
      \<lparr>model = ''other-model'',
       messages = [[''role'' \<mapsto> ''user'', ''content'' \<mapsto> ''two'']]\<rparr> 2)
     = Inr (response \<lparr>model = ''other-model'',
       messages = [[''role'' \<mapsto> ''user'', ''content'' \<mapsto> ''two'']]\<rparr> ''answer to two'')
   \<and> field ''id'' (response \<lparr>model = ''app-rag-model'',
       messages = [[''role'' \<mapsto> ''user'', ''content'' \<mapsto> ''one'']]\<rparr> ''answer to one'')
     = Some (JStr ''chatcmpl-123'')
   \<and> field ''id'' (response \<lparr>model = ''other-model'',
       messages = [[''role'' \<mapsto> ''user'', ''content'' \<mapsto> ''two'']]\<rparr> ''answer to two'')
     = Some (JStr ''chatcmpl-123'')
   \<and> field ''created'' (response \<lparr>model = ''app-rag-model'',
       messages = [[''role'' \<mapsto> ''user'', ''content'' \<mapsto> ''one'']]\<rparr> ''answer to one'')
     = Some (JInt 1677652288)
   \<and> field ''created'' (response \<lparr>model = ''other-model'',
       messages = [[''role'' \<mapsto> ''user'', ''content'' \<mapsto> ''two'']]\<rparr> ''answer to two'')
     = Some (JInt 1677652288)"
proof -
  let ?one = "\<lparr>model = ''app-rag-model'',
       messages = [[''role'' \<mapsto> ''user'', ''content'' \<mapsto> ''one'']]\<rparr>"
  let ?two = "\<lparr>model = ''other-model'',
       messages = [[''role'' \<mapsto> ''user'', ''content'' \<mapsto> ''two'']]\<rparr>"
  have r1: "returned (chat_completions echo_pipeline ?one 0)
      = Inr (response ?one ''answer to one'')"
    by (simp add: chat_completions_def user_message_def getitem_def returned_def
        echo_pipeline_def Let_def)
  have r2: "returned (chat_completions echo_pipeline ?two 2)
      = Inr (response ?two ''answer to two'')"
    by (simp add: chat_completions_def user_message_def getitem_def returned_def
        echo_pipeline_def Let_def)
  have n1: "response ?one ''answer to one'' \<noteq> no_user_message"
    by (simp add: response_def no_user_message_def)
  have n2: "response ?two ''answer to two'' \<noteq> no_user_message"
    by (simp add: response_def no_user_message_def)
  from C10_fixed_id_and_timestamp [OF r1 n1] C10_fixed_id_and_timestamp [OF r2 n2] r1 r2
  show ?thesis by simp
qed

end
